theory Spec2Isabelle
  imports Complex_Main "HOL-Library.Sublist" "HOL-Library.Word"
begin

section \<open>The data model (types.ts)\<close>

text \<open>
  The user name, whose length and characters the login guard inspects, is a JavaScript
  string as it is: a sequence of UTF-16 code units. The texts that the program only
  passes on, compares with the empty string or appends to a fixed prefix are Isabelle
  strings. JavaScript numbers that the program only uses as integers (ids, scores,
  clock readings) are \<open>int\<close>; the progress percentage, which grows by fractional random
  amounts, is \<open>real\<close>.
  Record fields carry a short prefix of their interface, since several interfaces
  share field names (\<open>score\<close>, \<open>username\<close>, \<open>dimension\<close>).
\<close>

type_synonym jsstring = "16 word list"

text \<open>A text of ASCII characters as a JavaScript string.\<close>

definition js :: "string \<Rightarrow> jsstring" where
  "js cs = map (\<lambda>c. of_nat (of_char c)) cs"

datatype AppState =
  BOOTING | AUTH | MENU | GENERATING | ASSESSMENT | ANALYZING | RESULT | LEADERBOARD | ERROR

datatype QuestionCount = SHORT | MEDIUM | FULL

fun count_of :: "QuestionCount \<Rightarrow> int" where
  "count_of SHORT = 20"
| "count_of MEDIUM = 50"
| "count_of FULL = 100"

record Question =
  q_id :: int
  q_text :: string
  q_dimension :: string
  q_options :: "string list"

record Answer =
  a_questionId :: int
  a_questionText :: string
  a_selectedOption :: string
  a_dimension :: string
  a_timeTaken :: int

record PersonalityReport =
  r_subjectName :: jsstring
  r_score :: int
  r_dominantTraits :: "string list"
  r_strengths :: "string list"
  r_weaknesses :: "string list"
  r_behavioralTendencies :: "string list"
  r_riskIndicators :: "string list"
  r_confidenceScore :: int
  r_generatedAt :: string

record LeaderboardEntry =
  e_username :: jsstring
  e_score :: int
  e_date :: string
  e_id :: string

section \<open>The leaderboard (App.tsx)\<close>

text \<open>
  \<open>Array.prototype.sort\<close> with a comparison function is a stable sort: \<open>a\<close> is placed
  before \<open>b\<close> when \<open>cmp a b < 0\<close>, and elements that compare equal keep their order.
  For a consistent comparison function that fixes the result, which stable insertion
  computes: going through the array from its end, each element is put in front of the
  first element it does not have to follow.
\<close>

fun insert_by :: "('a \<Rightarrow> 'a \<Rightarrow> int) \<Rightarrow> 'a \<Rightarrow> 'a list \<Rightarrow> 'a list" where
  "insert_by cmp x [] = [x]"
| "insert_by cmp x (y # ys) =
     (if cmp x y \<le> 0 then x # y # ys else y # insert_by cmp x ys)"

definition sort_by :: "('a \<Rightarrow> 'a \<Rightarrow> int) \<Rightarrow> 'a list \<Rightarrow> 'a list" where
  "sort_by cmp xs = foldr (insert_by cmp) xs []"

text \<open>The comparison function of the leaderboard: \<open>(a, b) => b.score - a.score\<close>.\<close>

definition by_score :: "LeaderboardEntry \<Rightarrow> LeaderboardEntry \<Rightarrow> int" where
  "by_score a b = e_score b - e_score a"

text \<open>
  \<open>[...leaderboard, newEntry].sort((a, b) => b.score - a.score).slice(0, 10)\<close>,
  the collection that \<open>finishAssessment\<close> stores.
\<close>

definition updatedLB :: "LeaderboardEntry list \<Rightarrow> LeaderboardEntry \<Rightarrow> LeaderboardEntry list" where
  "updatedLB leaderboard newEntry = take 10 (sort_by by_score (leaderboard @ [newEntry]))"

text \<open>The seed that the first load installs; \<open>d\<close> is the clock reading at load time.\<close>

definition seed :: "string \<Rightarrow> LeaderboardEntry list" where
  "seed d =
     [\<lparr>e_username = js ''GHOST_01'', e_score = 98, e_date = d, e_id = ''1''\<rparr>,
      \<lparr>e_username = js ''NEXUS'', e_score = 92, e_date = d, e_id = ''2''\<rparr>,
      \<lparr>e_username = js ''CIPHER'', e_score = 85, e_date = d, e_id = ''3''\<rparr>]"

text \<open>Sorted by score, highest first.\<close>

definition score_desc :: "LeaderboardEntry list \<Rightarrow> bool" where
  "score_desc xs = sorted_wrt (\<lambda>a b. e_score b \<le> e_score a) xs"

section \<open>The gateway (services/geminiService.ts)\<close>

text \<open>
  A thrown object with its \<open>message\<close> property, which an object that is not an
  \<open>Error\<close> may lack. The gateway throws \<open>Error\<close> objects itself and passes on what the
  model's client and \<open>JSON.parse\<close> throw.
\<close>

datatype error = Error (message: "string option")

text \<open>
  The exception of the language itself that a handler of the component can run into:
  reading a property of \<open>undefined\<close>. Nothing catches it, so its text is not modelled.
\<close>

datatype js_exception = TypeError

text \<open>
  What the gateway sends to the model: the prompt and the system instruction are fixed
  texts around the number of questions, or around the serialised answers.
\<close>

record AnswerData =
  d_dimension :: string
  d_question :: string
  d_choice :: string
  d_timeTakenMs :: int

datatype request = Generate int | Analyze "AnswerData list"

text \<open>
  Everything outside the program that one operation reads: the environment variable,
  the remote model (it rejects, or resolves with a response whose \<open>text\<close> may be
  undefined), \<open>JSON.parse\<close> at the two types at which its result is used (it throws
  on malformed text), \<open>String.prototype.toUpperCase\<close>, the clock, and the random numbers
  drawn while the call is outstanding.
\<close>

record env =
  API_KEY :: "string option"
  generateContent :: "request \<Rightarrow> error + string option"
  parse_questions :: "string \<Rightarrow> error + Question list"
  parse_analysis :: "string \<Rightarrow> error + PersonalityReport"
  toUpperCase :: "jsstring \<Rightarrow> jsstring"
  date_report :: string
  date_entry :: string
  random_id :: string
  random :: "real list"

definition getAIClient :: "env \<Rightarrow> error + (request \<Rightarrow> error + string option)" where
  "getAIClient w =
     (case API_KEY w of
        None \<Rightarrow> Inl (Error (Some ''API_KEY not found in environment.''))
      | Some apiKey \<Rightarrow>
          if apiKey = [] then Inl (Error (Some ''API_KEY not found in environment.''))
          else Inr (generateContent w))"

text \<open>
  The \<open>catch\<close> block of both operations logs the error and throws it again, so every
  failure leaves the function as it arose.
\<close>

definition generateAssessmentQuestions :: "env \<Rightarrow> int \<Rightarrow> error + Question list" where
  "generateAssessmentQuestions w count =
     (case getAIClient w of
        Inl err \<Rightarrow> Inl err
      | Inr ai \<Rightarrow>
          (case ai (Generate count) of
             Inl err \<Rightarrow> Inl err
           | Inr None \<Rightarrow> Inl (Error (Some ''No data received from construct.''))
           | Inr (Some rawText) \<Rightarrow>
               if rawText = [] then Inl (Error (Some ''No data received from construct.''))
               else parse_questions w rawText))"

definition inputData :: "Answer list \<Rightarrow> AnswerData list" where
  "inputData as =
     map (\<lambda>a. \<lparr>d_dimension = a_dimension a, d_question = a_questionText a,
               d_choice = a_selectedOption a, d_timeTakenMs = a_timeTaken a\<rparr>) as"

text \<open>
  The decoded payload is read at the type of the report; its two fields that the gateway
  overwrites hold whatever the model sent under those names.
  \<open>{...analysis, subjectName: username, generatedAt: new Date().toISOString()}\<close>
  is the record update.
\<close>

definition analyzePersonality :: "env \<Rightarrow> Answer list \<Rightarrow> jsstring \<Rightarrow> error + PersonalityReport" where
  "analyzePersonality w as uname =
     (case getAIClient w of
        Inl err \<Rightarrow> Inl err
      | Inr ai \<Rightarrow>
          (case ai (Analyze (inputData as)) of
             Inl err \<Rightarrow> Inl err
           | Inr None \<Rightarrow> Inl (Error (Some ''Analysis Protocol Failed.''))
           | Inr (Some rawText) \<Rightarrow>
               if rawText = [] then Inl (Error (Some ''Analysis Protocol Failed.''))
               else
                 (case parse_analysis w rawText of
                    Inl err \<Rightarrow> Inl err
                  | Inr analysis \<Rightarrow>
                      Inr (analysis\<lparr>r_subjectName := uname, r_generatedAt := date_report w\<rparr>))))"

section \<open>The view controller (App.tsx)\<close>

text \<open>
  The component's state hooks, the \<open>questionStartTime\<close> ref, the stored leaderboard
  (the key \<open>psyche7_leaderboard\<close> of the local storage, decoded) and the pending
  \<open>setTimeout\<close> with the state it will set.
\<close>

record app =
  state :: AppState
  username :: jsstring
  questions :: "Question list"
  answers :: "Answer list"
  currentQuestionIndex :: int
  report :: "PersonalityReport option"
  errorMsg :: string
  loadingProgress :: real
  leaderboard :: "LeaderboardEntry list"
  questionStartTime :: int
  localStorage :: "LeaderboardEntry list option"
  timeout :: "AppState option"

text \<open>
  The component as mounted: the boot timer is pending, and the leaderboard is the stored
  one, or the seed, which is then stored.
\<close>

definition mount :: "LeaderboardEntry list option \<Rightarrow> string \<Rightarrow> app" where
  "mount stored d =
     (let lb = (case stored of Some l \<Rightarrow> l | None \<Rightarrow> seed d) in
      \<lparr>state = BOOTING, username = [], questions = [], answers = [],
       currentQuestionIndex = 0, report = None, errorMsg = [], loadingProgress = 0,
       leaderboard = lb, questionStartTime = 0, localStorage = Some lb,
       timeout = Some AUTH\<rparr>)"

subsection \<open>Login\<close>

text \<open>
  \<open>String.prototype.trim\<close> removes the white space and the line terminators of the
  language from both ends: U+0009 to U+000D, U+0020, U+00A0, U+1680, U+2000 to U+200A,
  U+2028, U+2029, U+202F, U+205F, U+3000 and U+FEFF. All of them are single code units.
\<close>

definition is_space :: "16 word \<Rightarrow> bool" where
  "is_space c =
     (c \<in> {9, 10, 11, 12, 13, 32, 160, 5760, 8192, 8193, 8194, 8195, 8196, 8197, 8198,
           8199, 8200, 8201, 8202, 8232, 8233, 8239, 8287, 12288, 65279})"

definition trim :: "jsstring \<Rightarrow> jsstring" where
  "trim s = rev (dropWhile is_space (rev (dropWhile is_space s)))"

text \<open>The input's \<open>onChange\<close>: \<open>setUsername(e.target.value.toUpperCase())\<close>.\<close>

definition onChange :: "env \<Rightarrow> jsstring \<Rightarrow> app \<Rightarrow> app" where
  "onChange w v s = s\<lparr>username := toUpperCase w v\<rparr>"

definition handleLogin :: "app \<Rightarrow> app" where
  "handleLogin s = (if length (trim (username s)) > 2 then s\<lparr>state := MENU\<rparr> else s)"

subsection \<open>The progress simulator\<close>

text \<open>
  One callback of the interval, \<open>setLoadingProgress(prev => Math.min(prev + (Math.random() * m), 90))\<close>,
  where \<open>r\<close> is the value of \<open>Math.random()\<close> and \<open>m\<close> is 5 during generation and 2
  during analysis.
\<close>

definition tick :: "real \<Rightarrow> real \<Rightarrow> app \<Rightarrow> app" where
  "tick m r s = s\<lparr>loadingProgress := min (loadingProgress s + r * m) 90\<rparr>"

text \<open>The states after each callback, while the interval is alive.\<close>

fun ticking :: "real \<Rightarrow> real list \<Rightarrow> app \<Rightarrow> app list" where
  "ticking m [] s = []"
| "ticking m (r # rs) s = tick m r s # ticking m rs (tick m r s)"

definition ticked :: "real \<Rightarrow> real list \<Rightarrow> app \<Rightarrow> app" where
  "ticked m rs s = last (s # ticking m rs s)"

subsection \<open>Generation\<close>

text \<open>\<open>err.message || dflt\<close>: the default replaces an undefined and an empty message.\<close>

definition message_or :: "error \<Rightarrow> string \<Rightarrow> string" where
  "message_or err dflt =
     (case message err of None \<Rightarrow> dflt | Some m \<Rightarrow> if m = [] then dflt else m)"

text \<open>\<open>startAssessment\<close> up to its \<open>await\<close>.\<close>

definition startAssessment_begin :: "app \<Rightarrow> app" where
  "startAssessment_begin s = s\<lparr>state := GENERATING, loadingProgress := 0, errorMsg := []\<rparr>"

text \<open>
  \<open>startAssessment\<close>: the interval ticks with the random numbers of \<open>w\<close> until the
  gateway call settles; the \<open>try\<close> branch leaves the change of state to a timer.
\<close>

definition startAssessment :: "env \<Rightarrow> int \<Rightarrow> app \<Rightarrow> app" where
  "startAssessment w count s =
     (let s1 = ticked 5 (random w) (startAssessment_begin s) in
      case generateAssessmentQuestions w count of
        Inr q \<Rightarrow>
          s1\<lparr>loadingProgress := 100, questions := q, answers := [],
             currentQuestionIndex := 0, timeout := Some ASSESSMENT\<rparr>
      | Inl err \<Rightarrow>
          s1\<lparr>errorMsg := ''CONNECTION FAILED: '' @ message_or err ''UNKNOWN ERROR'',
             state := ERROR\<rparr>)"

subsection \<open>Answering and analysis\<close>

definition finishAssessment_begin :: "app \<Rightarrow> app" where
  "finishAssessment_begin s = s\<lparr>state := ANALYZING, loadingProgress := 0\<rparr>"

definition finishAssessment :: "env \<Rightarrow> Answer list \<Rightarrow> app \<Rightarrow> app" where
  "finishAssessment w finalAnswers s =
     (let s1 = ticked 2 (random w) (finishAssessment_begin s) in
      case analyzePersonality w finalAnswers (username s) of
        Inr result \<Rightarrow>
          (let newEntry = \<lparr>e_username = username s, e_score = r_score result,
                           e_date = date_entry w, e_id = random_id w\<rparr>;
               lb = updatedLB (leaderboard s) newEntry
           in s1\<lparr>loadingProgress := 100, report := Some result, leaderboard := lb,
                 localStorage := Some lb, timeout := Some RESULT\<rparr>)
      | Inl err \<Rightarrow>
          s1\<lparr>errorMsg := ''ANALYSIS FAILED: '' @ message_or err ''DATA CORRUPTED'',
             state := ERROR\<rparr>)"

text \<open>\<open>questions[currentQuestionIndex]\<close>, undefined outside the array.\<close>

definition currentQ :: "app \<Rightarrow> Question option" where
  "currentQ s =
     (if 0 \<le> currentQuestionIndex s \<and> currentQuestionIndex s < int (length (questions s))
      then Some (questions s ! nat (currentQuestionIndex s)) else None)"

text \<open>
  \<open>handleAnswer\<close>, at the clock reading \<open>now\<close>. Reading \<open>currentQ.id\<close> of an undefined
  question throws a \<open>TypeError\<close> before any setter has been called.
\<close>

definition handleAnswer :: "env \<Rightarrow> int \<Rightarrow> string \<Rightarrow> app \<Rightarrow> js_exception + app" where
  "handleAnswer w now option s =
     (case currentQ s of
        None \<Rightarrow> Inl TypeError
      | Some q \<Rightarrow>
          (let newAnswer = \<lparr>a_questionId = q_id q, a_questionText = q_text q,
                            a_selectedOption = option, a_dimension = q_dimension q,
                            a_timeTaken = now - questionStartTime s\<rparr>;
               s1 = s\<lparr>answers := answers s @ [newAnswer]\<rparr>
           in if currentQuestionIndex s < int (length (questions s)) - 1
              then Inr (s1\<lparr>currentQuestionIndex := currentQuestionIndex s + 1\<rparr>)
              else Inr (finishAssessment w (answers s @ [newAnswer]) s1)))"

subsection \<open>The buttons that only change the state\<close>

text \<open>\<open>REBOOT SYSTEM\<close> on the failure view and \<open>CLOSE DOSSIER\<close> on the report.\<close>

definition rebootSystem :: "app \<Rightarrow> app" where
  "rebootSystem s = s\<lparr>state := MENU\<rparr>"

definition closeDossier :: "app \<Rightarrow> app" where
  "closeDossier s = s\<lparr>state := MENU\<rparr>"

subsection \<open>The effect\<close>

text \<open>
  The effect on \<open>[currentQuestionIndex, state]\<close>: after a render in which one of the
  two changed, the question timer restarts if the assessment is showing.
\<close>

definition resetTimer :: "int \<Rightarrow> app \<Rightarrow> app \<Rightarrow> app" where
  "resetTimer now s s' =
     (if (currentQuestionIndex s' \<noteq> currentQuestionIndex s \<or> state s' \<noteq> state s)
         \<and> state s' = ASSESSMENT
      then s'\<lparr>questionStartTime := now\<rparr> else s')"

subsection \<open>The views\<close>





subsection \<open>The component as a machine\<close>

text \<open>
  A click on the answer button at position \<open>i\<close>, at the clock reading \<open>now\<close>. The
  buttons are the options of the question that the assessment view displays; where the
  view has no such button, nothing is clicked and nothing happens.
\<close>

definition answerButton :: "env \<Rightarrow> int \<Rightarrow> nat \<Rightarrow> app \<Rightarrow> js_exception + app" where
  "answerButton w now i s =
     (if state s = ASSESSMENT \<and> questions s \<noteq> [] then
        (case currentQ s of
           None \<Rightarrow> Inr s
         | Some q \<Rightarrow>
             if i < length (q_options q) then handleAnswer w now (q_options q ! i) s
             else Inr s)
      else Inr s)"

text \<open>
  What can happen to the component: a pending timer fires, or the user acts on a control
  of the view that is showing. The button of the login form is disabled while
  \<open>username.length < 3\<close>, and a form whose button is disabled is not submitted. An
  exception that leaves a handler has set nothing.
\<close>

datatype event =
  TimerFires
| Input jsstring env
| Submit
| Select QuestionCount env
| Click nat env
| Reboot
| Close

fun handle :: "int \<Rightarrow> event \<Rightarrow> app \<Rightarrow> app" where
  "handle now TimerFires s =
     (case timeout s of None \<Rightarrow> s | Some st \<Rightarrow> s\<lparr>state := st, timeout := None\<rparr>)"
| "handle now (Input v w) s = (if state s = AUTH then onChange w v s else s)"
| "handle now Submit s =
     (if state s = AUTH \<and> \<not> length (username s) < 3 then handleLogin s else s)"
| "handle now (Select c w) s =
     (if state s = MENU then startAssessment w (count_of c) s else s)"
| "handle now (Click i w) s =
     (case answerButton w now i s of Inr s' \<Rightarrow> s' | Inl err \<Rightarrow> s)"
| "handle now Reboot s = (if state s = ERROR then rebootSystem s else s)"
| "handle now Close s = (if state s = RESULT then closeDossier s else s)"

text \<open>One event at the clock reading \<open>now\<close>, followed by the effect.\<close>

definition step :: "app \<Rightarrow> int \<times> event \<Rightarrow> app" where
  "step s ne = resetTimer (fst ne) s (handle (fst ne) (snd ne) s)"

definition run :: "app \<Rightarrow> (int \<times> event) list \<Rightarrow> app" where
  "run s evs = foldl step s evs"

subsection \<open>Invariants\<close>

text \<open>The index is inside the questions or just past them, and counts the answers.\<close>

definition session_inv :: "app \<Rightarrow> bool" where
  "session_inv s =
     (0 \<le> currentQuestionIndex s
      \<and> currentQuestionIndex s \<le> int (length (questions s))
      \<and> int (length (answers s)) = currentQuestionIndex s)"

text \<open>
  A timer is pending only in the three states that offer no control, and the session is
  consistent while the assessment shows or is about to show.
\<close>

definition machine_inv :: "app \<Rightarrow> bool" where
  "machine_inv s =
     ((timeout s \<noteq> None \<longrightarrow> state s = BOOTING \<or> state s = GENERATING \<or> state s = ANALYZING)
      \<and> (state s = ASSESSMENT \<or> timeout s = Some ASSESSMENT \<longrightarrow> session_inv s))"



section \<open>Sample sessions\<close>

text \<open>Concrete worlds and sessions, on which the theorems below are instantiated.\<close>

definition two_questions :: "Question list" where
  "two_questions =
     [\<lparr>q_id = 1, q_text = ''Q1'', q_dimension = ''Autonomy'',
       q_options = [''A'', ''B'', ''C'', ''D'']\<rparr>,
      \<lparr>q_id = 2, q_text = ''Q2'', q_dimension = ''Empathy'',
       q_options = [''A'', ''B'', ''C'', ''D'']\<rparr>]"

definition model_report :: PersonalityReport where
  "model_report =
     \<lparr>r_subjectName = js ''MODEL'', r_score = 92, r_dominantTraits = [''calm''],
      r_strengths = [], r_weaknesses = [], r_behavioralTendencies = [],
      r_riskIndicators = [], r_confidenceScore = 70, r_generatedAt = ''never''\<rparr>"

text \<open>Upper case of ASCII text, with which \<open>toUpperCase\<close> agrees on the samples.\<close>

definition ascii_upper :: "jsstring \<Rightarrow> jsstring" where
  "ascii_upper v = map (\<lambda>c. if 97 \<le> c \<and> c \<le> 122 then c - 32 else c) v"

text \<open>A model that answers both requests, with two questions and with a report.\<close>

definition online :: env where
  "online =
     \<lparr>API_KEY = Some ''key'',
      generateContent =
        (\<lambda>req. case req of Generate n \<Rightarrow> Inr (Some ''questions'')
                | Analyze d \<Rightarrow> Inr (Some ''analysis'')),
      parse_questions = (\<lambda>t. Inr two_questions),
      parse_analysis = (\<lambda>t. Inr model_report),
      toUpperCase = ascii_upper,
      date_report = ''2024-05-01T10:00:00.000Z'',
      date_entry = ''2024-05-01T10:00:00.001Z'',
      random_id = ''k3j9x0a1b'',
      random = [1 / 2, 1 / 4, 9 / 10]\<rparr>"

text \<open>A model whose every call is rejected with \<open>Error("timeout")\<close>.\<close>

definition offline :: env where
  "offline = online\<lparr>generateContent := (\<lambda>req. Inl (Error (Some ''timeout'')))\<rparr>"

text \<open>A model that answers the request for questions with the empty JSON array.\<close>

definition no_questions :: env where
  "no_questions =
     online\<lparr>generateContent := (\<lambda>req. Inr (Some ''[]'')),
            parse_questions :=
              (\<lambda>t. if t = ''[]'' then Inr [] else Inl (Error (Some ''Unexpected token'')))\<rparr>"

text \<open>
  A user who boots, logs in as \<open>abc\<close>, asks for the quick scan and answers the first of
  the two questions; whose analysis fails after the second answer; and who reboots.
\<close>

definition in_menu :: app where
  "in_menu = run (mount None ''2024-05-01'') [(3500, TimerFires), (4000, Input (js ''abc'') online), (5000, Submit)]"

definition answered_one :: app where
  "answered_one = run in_menu [(6000, Select SHORT online), (7000, TimerFires), (8000, Click 0 online)]"

definition analysis_failed :: app where
  "analysis_failed = run answered_one [(9000, Click 1 offline)]"

definition rebooted :: app where
  "rebooted = run analysis_failed [(9500, Reboot)]"

text \<open>A user who types three spaces into the login form and submits it.\<close>

definition blank_login :: app where
  "blank_login =
     run (mount None ''2024-05-01'') [(3500, TimerFires), (4000, Input (js ''   '') online), (5000, Submit)]"


section \<open>Properties of the leaderboard\<close>

lemma set_insert_by: "set (insert_by cmp x ys) = insert x (set ys)"
  by (induction ys) auto

lemma length_insert_by: "length (insert_by cmp x ys) = Suc (length ys)"
  by (induction ys) auto

lemma length_sort_by: "length (sort_by cmp xs) = length xs"
  by (induction xs) (auto simp: sort_by_def length_insert_by)

lemma set_sort_by: "set (sort_by cmp xs) = set xs"
  by (induction xs) (auto simp: sort_by_def set_insert_by)

lemma score_desc_insert:
  "score_desc ys \<Longrightarrow> score_desc (insert_by by_score x ys)"
  by (induction ys) (auto simp: score_desc_def by_score_def set_insert_by)

lemma score_desc_sort: "score_desc (sort_by by_score xs)"
proof (induction xs)
  case Nil
  show ?case by (simp add: sort_by_def score_desc_def)
next
  case (Cons x xs)
  then show ?case using score_desc_insert [of "sort_by by_score xs" x]
    by (simp add: sort_by_def)
qed

lemma score_desc_take: "score_desc xs \<Longrightarrow> score_desc (take n xs)"
  unfolding score_desc_def by (rule sorted_wrt_take)

lemma filter_insert_other:
  "e_score x \<noteq> k \<Longrightarrow>
   filter (\<lambda>e. e_score e = k) (insert_by by_score x ys) = filter (\<lambda>e. e_score e = k) ys"
  by (induction ys) auto

lemma filter_insert_same:
  "score_desc ys \<Longrightarrow>
   filter (\<lambda>e. e_score e = e_score x) (insert_by by_score x ys)
     = x # filter (\<lambda>e. e_score e = e_score x) ys"
  by (induction ys) (auto simp: score_desc_def by_score_def)

lemma sort_by_stable:
  "filter (\<lambda>e. e_score e = k) (sort_by by_score xs) = filter (\<lambda>e. e_score e = k) xs"
proof (induction xs)
  case Nil
  show ?case by (simp add: sort_by_def)
next
  case (Cons x xs)
  have step: "sort_by by_score (x # xs) = insert_by by_score x (sort_by by_score xs)"
    by (simp add: sort_by_def)
  show ?case
  proof (cases "e_score x = k")
    case True
    then show ?thesis
      using Cons filter_insert_same [OF score_desc_sort, of x xs] by (simp add: step)
  next
    case False
    then show ?thesis using Cons by (simp add: step filter_insert_other)
  qed
qed

lemma updatedLB_length: "length (updatedLB lb e) \<le> 10"
  by (simp add: updatedLB_def)

lemma updatedLB_sorted: "score_desc (updatedLB lb e)"
  by (simp add: updatedLB_def score_desc_take score_desc_sort)

lemma prefix_filter_take: "prefix (filter P (take n xs)) (filter P xs)"
proof -
  have "filter P xs = filter P (take n xs) @ filter P (drop n xs)"
    by (metis append_take_drop_id filter_append)
  then show ?thesis by (simp add: prefix_def)
qed

lemma updatedLB_stable:
  "prefix (filter (\<lambda>x. e_score x = k) (updatedLB lb e)) (filter (\<lambda>x. e_score x = k) (lb @ [e]))"
  using prefix_filter_take [of "\<lambda>x. e_score x = k" 10 "sort_by by_score (lb @ [e])"]
  by (simp only: updatedLB_def sort_by_stable)

lemma updates_stable:
  "subseq (filter (\<lambda>x. e_score x = k) (foldl updatedLB lb es))
          (filter (\<lambda>x. e_score x = k) (lb @ es))"
proof (induction es rule: rev_induct)
  case Nil
  show ?case by simp
next
  case (snoc e es)
  let ?P = "\<lambda>x. e_score x = k"
  have "subseq (filter ?P (updatedLB (foldl updatedLB lb es) e))
               (filter ?P (foldl updatedLB lb es @ [e]))"
    using updatedLB_stable [of k "foldl updatedLB lb es" e] by (rule prefix_imp_subseq)
  moreover have "subseq (filter ?P (foldl updatedLB lb es @ [e])) (filter ?P ((lb @ es) @ [e]))"
  proof -
    have "subseq (filter ?P (foldl updatedLB lb es) @ filter ?P [e])
                 (filter ?P (lb @ es) @ filter ?P [e])"
      using snoc by (intro list_emb_append_mono) simp_all
    then show ?thesis by (simp only: filter_append)
  qed
  ultimately have "subseq (filter ?P (updatedLB (foldl updatedLB lb es) e))
                          (filter ?P ((lb @ es) @ [e]))"
    by (rule subseq_order.trans)
  then show ?case by simp
qed

text \<open>
  C1. After any sequence of record operations the stored collection has at most 10
  entries and is sorted by score, highest first; entries of equal score are kept in the
  order in which they were inserted. The collection before the first operation is the
  seed, or any collection at all once one operation has run. Each operation of a
  sequence appends its entry: its result is the first 10 entries of a list \<open>S\<close> that
  holds the entries of the collection before and the new entry, one entry more, sorted
  by score, highest first, with the entries of each score in the order of the
  collection followed by the new entry.
\<close>

theorem leaderboard_invariant:
  "((es \<noteq> [] \<or> lb = seed d) \<longrightarrow>
     length (foldl updatedLB lb es) \<le> 10
     \<and> score_desc (foldl updatedLB lb es)
     \<and> (\<forall>k. subseq (filter (\<lambda>x. e_score x = k) (foldl updatedLB lb es))
                    (filter (\<lambda>x. e_score x = k) (lb @ es))))
   \<and> length (foldl updatedLB lb (es @ [e])) = min 10 (Suc (length (foldl updatedLB lb es)))
   \<and> (\<exists>S. foldl updatedLB lb (es @ [e]) = take 10 S
          \<and> length S = Suc (length (foldl updatedLB lb es))
          \<and> set S = insert e (set (foldl updatedLB lb es))
          \<and> score_desc S
          \<and> (\<forall>k. filter (\<lambda>x. e_score x = k) S
                  = filter (\<lambda>x. e_score x = k) (foldl updatedLB lb es @ [e])))"
proof (intro conjI)
  show "(es \<noteq> [] \<or> lb = seed d) \<longrightarrow>
     length (foldl updatedLB lb es) \<le> 10
     \<and> score_desc (foldl updatedLB lb es)
     \<and> (\<forall>k. subseq (filter (\<lambda>x. e_score x = k) (foldl updatedLB lb es))
                    (filter (\<lambda>x. e_score x = k) (lb @ es)))"
  proof (cases es rule: rev_cases)
    case Nil
    then show ?thesis by (auto simp: seed_def score_desc_def)
  next
    case (snoc es' e')
    then show ?thesis using updates_stable [of _ lb es]
      by (simp add: updatedLB_length updatedLB_sorted)
  qed
next
  show "length (foldl updatedLB lb (es @ [e])) = min 10 (Suc (length (foldl updatedLB lb es)))"
    by (simp add: updatedLB_def length_sort_by)
next
  let ?c = "foldl updatedLB lb es"
  let ?S = "sort_by by_score (?c @ [e])"
  have "foldl updatedLB lb (es @ [e]) = take 10 ?S" by (simp add: updatedLB_def)
  moreover have "length ?S = Suc (length ?c)" by (simp add: length_sort_by)
  moreover have "set ?S = insert e (set ?c)" by (simp add: set_sort_by)
  moreover have "score_desc ?S" by (rule score_desc_sort)
  moreover have "\<forall>k. filter (\<lambda>x. e_score x = k) ?S = filter (\<lambda>x. e_score x = k) (?c @ [e])"
    by (simp only: sort_by_stable) simp
  ultimately show "\<exists>S. foldl updatedLB lb (es @ [e]) = take 10 S
          \<and> length S = Suc (length ?c)
          \<and> set S = insert e (set ?c)
          \<and> score_desc S
          \<and> (\<forall>k. filter (\<lambda>x. e_score x = k) S = filter (\<lambda>x. e_score x = k) (?c @ [e]))"
    by blast
qed

theorem leaderboard_invariant_witness:
  "[\<lparr>e_username = js ''ABC'', e_score = 92, e_date = ''d2'', e_id = ''k3j9x0a1b''\<rparr>] \<noteq> []
   \<and> length (foldl updatedLB (seed ''d1'')
        [\<lparr>e_username = js ''ABC'', e_score = 92, e_date = ''d2'', e_id = ''k3j9x0a1b''\<rparr>]) \<le> 10
   \<and> score_desc (foldl updatedLB (seed ''d1'')
        [\<lparr>e_username = js ''ABC'', e_score = 92, e_date = ''d2'', e_id = ''k3j9x0a1b''\<rparr>])
   \<and> subseq (filter (\<lambda>x. e_score x = 92) (foldl updatedLB (seed ''d1'')
        [\<lparr>e_username = js ''ABC'', e_score = 92, e_date = ''d2'', e_id = ''k3j9x0a1b''\<rparr>]))
       (filter (\<lambda>x. e_score x = 92) (seed ''d1'' @
        [\<lparr>e_username = js ''ABC'', e_score = 92, e_date = ''d2'', e_id = ''k3j9x0a1b''\<rparr>]))
   \<and> length (foldl updatedLB (seed ''d1'') ([] @
        [\<lparr>e_username = js ''ABC'', e_score = 92, e_date = ''d2'', e_id = ''k3j9x0a1b''\<rparr>]))
       = min 10 (Suc (length (foldl updatedLB (seed ''d1'') [])))
   \<and> map e_username (foldl updatedLB (seed ''d1'')
        [\<lparr>e_username = js ''ABC'', e_score = 92, e_date = ''d2'', e_id = ''k3j9x0a1b''\<rparr>])
       = [js ''GHOST_01'', js ''NEXUS'', js ''ABC'', js ''CIPHER'']"
proof -
  have v: "map e_username (foldl updatedLB (seed ''d1'')
        [\<lparr>e_username = js ''ABC'', e_score = 92, e_date = ''d2'', e_id = ''k3j9x0a1b''\<rparr>])
       = [js ''GHOST_01'', js ''NEXUS'', js ''ABC'', js ''CIPHER'']"
    by code_simp
  show ?thesis
    using v
      leaderboard_invariant
        [of "[\<lparr>e_username = js ''ABC'', e_score = 92, e_date = ''d2'', e_id = ''k3j9x0a1b''\<rparr>]"
            "seed ''d1''" "''d1''"]
      leaderboard_invariant
        [of "[]" "seed ''d1''" "''d1''"
            "\<lparr>e_username = js ''ABC'', e_score = 92, e_date = ''d2'', e_id = ''k3j9x0a1b''\<rparr>"]
    by blast
qed

text \<open>The tie of the sample: the new entry with score 92 follows the seeded one.\<close>

lemma leaderboard_tie_example:
  "map e_username (updatedLB (seed ''d1'')
      \<lparr>e_username = js ''ABC'', e_score = 92, e_date = ''d2'', e_id = ''k3j9x0a1b''\<rparr>)
     = map js [''GHOST_01'', ''NEXUS'', ''ABC'', ''CIPHER'']"
  by code_simp

section \<open>Properties of the gateway and of the view controller\<close>

lemma ticked_Nil: "ticked m [] s = s"
  by (simp add: ticked_def)

lemma ticked_Cons: "ticked m (r # rs) s = ticked m rs (tick m r s)"
  by (simp add: ticked_def)

lemma ticked_frame: "\<exists>p. ticked m rs s = s\<lparr>loadingProgress := p\<rparr>"
proof (induction rs arbitrary: s)
  case Nil
  have "s = s\<lparr>loadingProgress := loadingProgress s\<rparr>" by simp
  then show ?case unfolding ticked_Nil by (rule exI)
next
  case (Cons r rs)
  obtain p where "ticked m rs (tick m r s) = (tick m r s)\<lparr>loadingProgress := p\<rparr>"
    using Cons [of "tick m r s"] by blast
  then have "ticked m (r # rs) s = s\<lparr>loadingProgress := p\<rparr>"
    by (simp add: ticked_Cons tick_def)
  then show ?case by (rule exI)
qed

lemma startAssessment_rejected:
  assumes "generateAssessmentQuestions w count = Inl err"
  shows "\<exists>p. startAssessment w count s =
           s\<lparr>state := ERROR, loadingProgress := p,
             errorMsg := ''CONNECTION FAILED: '' @ message_or err ''UNKNOWN ERROR''\<rparr>"
proof -
  obtain p where "ticked 5 (random w) (startAssessment_begin s) = (startAssessment_begin s)\<lparr>loadingProgress := p\<rparr>"
    using ticked_frame by blast
  then have "startAssessment w count s =
           s\<lparr>state := ERROR, loadingProgress := p,
             errorMsg := ''CONNECTION FAILED: '' @ message_or err ''UNKNOWN ERROR''\<rparr>"
    using assms by (simp add: startAssessment_def startAssessment_begin_def)
  then show ?thesis by (rule exI)
qed

lemma startAssessment_resolved:
  assumes "generateAssessmentQuestions w count = Inr q"
  shows "startAssessment w count s =
           s\<lparr>state := GENERATING, loadingProgress := 100, errorMsg := [], questions := q,
             answers := [], currentQuestionIndex := 0, timeout := Some ASSESSMENT\<rparr>"
proof -
  obtain p where "ticked 5 (random w) (startAssessment_begin s) = (startAssessment_begin s)\<lparr>loadingProgress := p\<rparr>"
    using ticked_frame by blast
  then show ?thesis
    using assms by (simp add: startAssessment_def startAssessment_begin_def)
qed

lemma finishAssessment_rejected:
  assumes "analyzePersonality w fa (username s) = Inl err"
  shows "\<exists>p. finishAssessment w fa s =
           s\<lparr>state := ERROR, loadingProgress := p,
             errorMsg := ''ANALYSIS FAILED: '' @ message_or err ''DATA CORRUPTED''\<rparr>"
proof -
  obtain p where "ticked 2 (random w) (finishAssessment_begin s) = (finishAssessment_begin s)\<lparr>loadingProgress := p\<rparr>"
    using ticked_frame by blast
  then have "finishAssessment w fa s =
           s\<lparr>state := ERROR, loadingProgress := p,
             errorMsg := ''ANALYSIS FAILED: '' @ message_or err ''DATA CORRUPTED''\<rparr>"
    using assms by (simp add: finishAssessment_def finishAssessment_begin_def)
  then show ?thesis by (rule exI)
qed

lemma finishAssessment_resolved:
  assumes "analyzePersonality w fa (username s) = Inr result"
  shows "finishAssessment w fa s =
           s\<lparr>state := ANALYZING, loadingProgress := 100, report := Some result,
             leaderboard := updatedLB (leaderboard s)
                \<lparr>e_username = username s, e_score = r_score result,
                 e_date = date_entry w, e_id = random_id w\<rparr>,
             localStorage := Some (updatedLB (leaderboard s)
                \<lparr>e_username = username s, e_score = r_score result,
                 e_date = date_entry w, e_id = random_id w\<rparr>),
             timeout := Some RESULT\<rparr>"
proof -
  obtain p where "ticked 2 (random w) (finishAssessment_begin s) = (finishAssessment_begin s)\<lparr>loadingProgress := p\<rparr>"
    using ticked_frame by blast
  then show ?thesis
    using assms by (simp add: finishAssessment_def finishAssessment_begin_def Let_def)
qed

text \<open>
  C10. When the call for questions is rejected, the questions, the answers, the current
  index and the leaderboard (in the component and in the local storage) are those of the
  state in which \<open>startAssessment\<close> was called.
\<close>

theorem generation_failure_keeps_session:
  assumes "generateAssessmentQuestions w count = Inl err"
  shows "questions (startAssessment w count s) = questions s
       \<and> answers (startAssessment w count s) = answers s
       \<and> currentQuestionIndex (startAssessment w count s) = currentQuestionIndex s
       \<and> leaderboard (startAssessment w count s) = leaderboard s
       \<and> localStorage (startAssessment w count s) = localStorage s"
proof -
  obtain p where "startAssessment w count s =
           s\<lparr>state := ERROR, loadingProgress := p,
             errorMsg := ''CONNECTION FAILED: '' @ message_or err ''UNKNOWN ERROR''\<rparr>"
    using startAssessment_rejected [OF assms] by blast
  then show ?thesis by simp
qed

theorem generation_failure_keeps_session_witness:
  "generateAssessmentQuestions offline 20 = Inl (Error (Some ''timeout''))
   \<and> questions (startAssessment offline 20 rebooted) = questions rebooted
   \<and> answers (startAssessment offline 20 rebooted) = answers rebooted
   \<and> currentQuestionIndex (startAssessment offline 20 rebooted) = currentQuestionIndex rebooted
   \<and> leaderboard (startAssessment offline 20 rebooted) = leaderboard rebooted
   \<and> localStorage (startAssessment offline 20 rebooted) = localStorage rebooted"
proof -
  have h: "generateAssessmentQuestions offline 20 = Inl (Error (Some ''timeout''))"
    by code_simp
  show ?thesis using h generation_failure_keeps_session [OF h, of rebooted] by simp
qed

text \<open>
  C7. A rejected call for questions ends in \<open>ERROR\<close> with the message
  \<open>CONNECTION FAILED: \<close> followed by the error's message, or by \<open>UNKNOWN ERROR\<close> when the
  message is undefined or empty; a rejected analysis ends in \<open>ERROR\<close> with
  \<open>ANALYSIS FAILED: \<close> followed by the message, or by \<open>DATA CORRUPTED\<close>. The message
  \<open>timeout\<close> gives exactly \<open>ANALYSIS FAILED: timeout\<close>.
\<close>

theorem gateway_failure_message:
  "(generateAssessmentQuestions w count = Inl err \<longrightarrow>
      state (startAssessment w count s) = ERROR
      \<and> errorMsg (startAssessment w count s) =
          ''CONNECTION FAILED: '' @
            (case message err of None \<Rightarrow> ''UNKNOWN ERROR''
             | Some m \<Rightarrow> if m = [] then ''UNKNOWN ERROR'' else m))
   \<and> (analyzePersonality w fa (username s) = Inl err \<longrightarrow>
      state (finishAssessment w fa s) = ERROR
      \<and> errorMsg (finishAssessment w fa s) =
          ''ANALYSIS FAILED: '' @
            (case message err of None \<Rightarrow> ''DATA CORRUPTED''
             | Some m \<Rightarrow> if m = [] then ''DATA CORRUPTED'' else m)
      \<and> (message err = Some ''timeout'' \<longrightarrow>
           errorMsg (finishAssessment w fa s) = ''ANALYSIS FAILED: timeout''))"
proof (intro conjI impI)
  assume a: "generateAssessmentQuestions w count = Inl err"
  obtain p where e: "startAssessment w count s =
           s\<lparr>state := ERROR, loadingProgress := p,
             errorMsg := ''CONNECTION FAILED: '' @ message_or err ''UNKNOWN ERROR''\<rparr>"
    using startAssessment_rejected [OF a] by blast
  show "state (startAssessment w count s) = ERROR" by (simp add: e)
  show "errorMsg (startAssessment w count s) =
          ''CONNECTION FAILED: '' @
            (case message err of None \<Rightarrow> ''UNKNOWN ERROR''
             | Some m \<Rightarrow> if m = [] then ''UNKNOWN ERROR'' else m)"
    by (simp add: e message_or_def)
next
  assume a: "analyzePersonality w fa (username s) = Inl err"
  obtain p where e: "finishAssessment w fa s =
           s\<lparr>state := ERROR, loadingProgress := p,
             errorMsg := ''ANALYSIS FAILED: '' @ message_or err ''DATA CORRUPTED''\<rparr>"
    using finishAssessment_rejected [OF a] by blast
  show "state (finishAssessment w fa s) = ERROR" by (simp add: e)
  show "errorMsg (finishAssessment w fa s) =
          ''ANALYSIS FAILED: '' @
            (case message err of None \<Rightarrow> ''DATA CORRUPTED''
             | Some m \<Rightarrow> if m = [] then ''DATA CORRUPTED'' else m)"
    by (simp add: e message_or_def)
  assume "message err = Some ''timeout''"
  then show "errorMsg (finishAssessment w fa s) = ''ANALYSIS FAILED: timeout''"
    by (simp add: e message_or_def)
qed

theorem gateway_failure_message_witness:
  "generateAssessmentQuestions offline 20 = Inl (Error (Some ''timeout''))
   \<and> state (startAssessment offline 20 in_menu) = ERROR
   \<and> errorMsg (startAssessment offline 20 in_menu) = ''CONNECTION FAILED: timeout''
   \<and> analyzePersonality offline [] (username in_menu) = Inl (Error (Some ''timeout''))
   \<and> state (finishAssessment offline [] in_menu) = ERROR
   \<and> errorMsg (finishAssessment offline [] in_menu) = ''ANALYSIS FAILED: timeout''"
proof -
  have g: "generateAssessmentQuestions offline 20 = Inl (Error (Some ''timeout''))"
    by code_simp
  have a: "analyzePersonality offline [] (username in_menu) = Inl (Error (Some ''timeout''))"
    by code_simp
  show ?thesis
    using g a gateway_failure_message [of offline 20 "Error (Some ''timeout'')" in_menu "[]"]
    by simp
qed

text \<open>
  C9. A report that \<open>analyzePersonality\<close> returns carries the given user name and the
  clock reading taken when the response had been decoded: it is the decoded payload with
  these two fields overwritten, whatever the payload held there.
\<close>

theorem report_attachments:
  assumes "analyzePersonality w as uname = Inr r"
  shows "r_subjectName r = uname \<and> r_generatedAt r = date_report w
       \<and> (\<exists>rawText analysis. parse_analysis w rawText = Inr analysis
            \<and> r = analysis\<lparr>r_subjectName := uname, r_generatedAt := date_report w\<rparr>)"
  using assms
  by (auto simp: analyzePersonality_def split: sum.splits option.splits if_splits)

theorem report_attachments_witness:
  "analyzePersonality online [] (js ''ABC'')
     = Inr (model_report\<lparr>r_subjectName := js ''ABC'', r_generatedAt := ''2024-05-01T10:00:00.000Z''\<rparr>)
   \<and> r_subjectName model_report = js ''MODEL''
   \<and> r_subjectName (model_report\<lparr>r_subjectName := js ''ABC'', r_generatedAt := ''2024-05-01T10:00:00.000Z''\<rparr>) = js ''ABC''
   \<and> r_generatedAt (model_report\<lparr>r_subjectName := js ''ABC'', r_generatedAt := ''2024-05-01T10:00:00.000Z''\<rparr>)
       = date_report online"
proof -
  have h: "analyzePersonality online [] (js ''ABC'')
     = Inr (model_report\<lparr>r_subjectName := js ''ABC'', r_generatedAt := ''2024-05-01T10:00:00.000Z''\<rparr>)"
    by code_simp
  have m: "r_subjectName model_report = js ''MODEL''" by (simp add: model_report_def)
  show ?thesis using h m report_attachments [OF h] by simp
qed

text \<open>
  C2, as stated, fails: the gateway returns what the model sent. For the quick scan of 20
  questions, a model that answers with the empty array makes the call resolve with no
  question at all.
\<close>

theorem generated_count_counterexample:
  "count_of SHORT = 20 \<and> generateAssessmentQuestions no_questions 20 = Inr []
   \<and> int (length ([] :: Question list)) \<noteq> 20"
  by code_simp

text \<open>
  C2, amended. \<open>generateAssessmentQuestions(count)\<close> resolves with a sequence exactly when
  the key is set, the model answers the request for \<open>count\<close> questions with a non-empty
  text, and \<open>JSON.parse\<close> decodes that text to the sequence: the result is the decoded
  payload, whose length and whose numbers of options the gateway does not check.
\<close>

theorem generated_questions_are_payload:
  "generateAssessmentQuestions w count = Inr qs \<longleftrightarrow>
     (\<exists>apiKey rawText. API_KEY w = Some apiKey \<and> apiKey \<noteq> []
        \<and> generateContent w (Generate count) = Inr (Some rawText) \<and> rawText \<noteq> []
        \<and> parse_questions w rawText = Inr qs)"
  by (auto simp: generateAssessmentQuestions_def getAIClient_def
           split: sum.splits option.splits if_splits)

theorem generated_questions_are_payload_witness:
  "generateAssessmentQuestions online 20 = Inr two_questions
   \<and> (\<exists>apiKey rawText. API_KEY online = Some apiKey \<and> apiKey \<noteq> []
        \<and> generateContent online (Generate 20) = Inr (Some rawText) \<and> rawText \<noteq> []
        \<and> parse_questions online rawText = Inr two_questions)"
proof -
  have h: "generateAssessmentQuestions online 20 = Inr two_questions" by code_simp
  show ?thesis using h generated_questions_are_payload [of online 20 two_questions] by blast
qed


text \<open>The handler has no guard of its own: called without a current question, it throws.\<close>

lemma handleAnswer_unguarded: "currentQ s = None \<Longrightarrow> handleAnswer w now option s = Inl TypeError"
  by (simp add: handleAnswer_def)




text \<open>
  C5, as stated, fails: a user name of three spaces has length 3 and is not let in.
\<close>

theorem login_blank_counterexample:
  "username blank_login = js ''   '' \<and> length (username blank_login) = 3
   \<and> state blank_login = AUTH"
  by code_simp

lemma length_trim_le: "length (trim u) \<le> length u"
proof -
  have "length (trim u) \<le> length (dropWhile is_space u)"
    unfolding trim_def using length_dropWhile_le [of is_space "rev (dropWhile is_space u)"] by simp
  also have "\<dots> \<le> length u" by (rule length_dropWhile_le)
  finally show ?thesis .
qed

text \<open>
  C5, amended. The stored user name is the upper case of the typed text. A submission
  in \<open>AUTH\<close> leads to \<open>MENU\<close> exactly when the user name without its leading and
  trailing white space has length 3 or more; in particular it is blocked when the user
  name has length 0, 1 or 2.
\<close>

theorem login_guard:
  assumes "state s = AUTH"
  shows "username (handle t1 (Input v w) s) = toUpperCase w v
       \<and> (state (handle t2 Submit (handle t1 (Input v w) s)) = MENU
            \<longleftrightarrow> 3 \<le> length (trim (toUpperCase w v)))
       \<and> (length (toUpperCase w v) \<le> 2 \<longrightarrow>
            state (handle t2 Submit (handle t1 (Input v w) s)) = AUTH)"
  using assms length_trim_le [of "toUpperCase w v"]
  by (auto simp: onChange_def handleLogin_def)

theorem login_guard_witness:
  "state (run (mount None ''2024-05-01'') [(3500, TimerFires)]) = AUTH
   \<and> username (handle 4000 (Input (js ''abc'') online)
        (run (mount None ''2024-05-01'') [(3500, TimerFires)])) = js ''ABC''
   \<and> state (handle 5000 Submit (handle 4000 (Input (js ''abc'') online)
        (run (mount None ''2024-05-01'') [(3500, TimerFires)]))) = MENU
   \<and> 3 \<le> length (trim (toUpperCase online (js ''abc'')))"
proof -
  have h: "state (run (mount None ''2024-05-01'') [(3500, TimerFires)]) = AUTH" by code_simp
  have u: "toUpperCase online (js ''abc'') = js ''ABC''" by code_simp
  have t: "3 \<le> length (trim (toUpperCase online (js ''abc'')))" by code_simp
  show ?thesis
    using h t login_guard [OF h, of 4000 "js ''abc''" online 5000] unfolding u by blast
qed

lemma tick_progress: "loadingProgress (tick m r s) = min (loadingProgress s + r * m) 90"
  by (simp add: tick_def)

lemma ticking_bounds:
  assumes "0 \<le> m" and "loadingProgress s \<le> 90" and "\<forall>r\<in>set rs. 0 \<le> r"
  shows "sorted (map loadingProgress (s # ticking m rs s))
       \<and> (\<forall>x\<in>set (ticking m rs s). loadingProgress x \<le> 90)"
  using assms(2,3)
proof (induction rs arbitrary: s)
  case Nil
  show ?case by simp
next
  case (Cons r rs)
  let ?t = "tick m r s"
  have r: "0 \<le> r * m" using Cons.prems(2) assms(1) by simp
  have up: "loadingProgress s \<le> loadingProgress ?t"
    using r Cons.prems(1) by (simp add: tick_progress)
  have cap: "loadingProgress ?t \<le> 90" by (simp add: tick_progress)
  have ih: "sorted (map loadingProgress (?t # ticking m rs ?t))
       \<and> (\<forall>x\<in>set (ticking m rs ?t). loadingProgress x \<le> 90)"
    using Cons.IH [OF cap] Cons.prems(2) by simp
  show ?case using up cap ih by auto
qed

text \<open>
  C6. From the reset to 0 that starts the generation or the analysis, and for any random
  numbers in \<open>[0, 1)\<close>, the progress values after the successive ticks never decrease and
  never exceed 90, so they stay below 91; a tick adds an amount in \<open>[0, 5)\<close> during
  generation and in \<open>[0, 2)\<close> during analysis, and caps the sum at 90. The progress is a
  real number here; the additions of the program round, which keeps both properties.
\<close>

theorem progress_monotone_capped:
  assumes "\<forall>r\<in>set rs. 0 \<le> r \<and> r < 1"
  shows "sorted (map loadingProgress (startAssessment_begin s # ticking 5 rs (startAssessment_begin s)))
       \<and> (\<forall>x\<in>set (startAssessment_begin s # ticking 5 rs (startAssessment_begin s)).
             loadingProgress x \<le> 90)
       \<and> sorted (map loadingProgress (finishAssessment_begin s # ticking 2 rs (finishAssessment_begin s)))
       \<and> (\<forall>x\<in>set (finishAssessment_begin s # ticking 2 rs (finishAssessment_begin s)).
             loadingProgress x \<le> 90)
       \<and> (\<forall>r\<in>set rs. \<forall>x.
             loadingProgress (tick 5 r x) = min (loadingProgress x + r * 5) 90
             \<and> 0 \<le> r * 5 \<and> r * 5 < 5
             \<and> loadingProgress (tick 2 r x) = min (loadingProgress x + r * 2) 90
             \<and> 0 \<le> r * 2 \<and> r * 2 < 2)"
proof -
  have nn: "\<forall>r\<in>set rs. 0 \<le> r" using assms by blast
  have g0: "loadingProgress (startAssessment_begin s) \<le> 90"
    by (simp add: startAssessment_begin_def)
  have a0: "loadingProgress (finishAssessment_begin s) \<le> 90"
    by (simp add: finishAssessment_begin_def)
  have g: "sorted (map loadingProgress (startAssessment_begin s # ticking 5 rs (startAssessment_begin s)))
       \<and> (\<forall>x\<in>set (ticking 5 rs (startAssessment_begin s)). loadingProgress x \<le> 90)"
    using ticking_bounds [OF _ g0 nn, of 5] by simp
  have a: "sorted (map loadingProgress (finishAssessment_begin s # ticking 2 rs (finishAssessment_begin s)))
       \<and> (\<forall>x\<in>set (ticking 2 rs (finishAssessment_begin s)). loadingProgress x \<le> 90)"
    using ticking_bounds [OF _ a0 nn, of 2] by simp
  have t: "\<forall>r\<in>set rs. \<forall>x.
             loadingProgress (tick 5 r x) = min (loadingProgress x + r * 5) 90
             \<and> 0 \<le> r * 5 \<and> r * 5 < 5
             \<and> loadingProgress (tick 2 r x) = min (loadingProgress x + r * 2) 90
             \<and> 0 \<le> r * 2 \<and> r * 2 < 2"
    using assms by (simp add: tick_progress)
  show ?thesis using g a t g0 a0 by simp
qed

theorem progress_monotone_capped_witness:
  "(0 :: real) \<le> 1 / 2 \<and> (1 / 2 :: real) < 1 \<and> (0 :: real) \<le> 1 / 4 \<and> (1 / 4 :: real) < 1
   \<and> (0 :: real) \<le> 9 / 10 \<and> (9 / 10 :: real) < 1
   \<and> map loadingProgress (startAssessment_begin in_menu
         # ticking 5 [1 / 2, 1 / 4, 9 / 10] (startAssessment_begin in_menu))
       = [0, 5 / 2, 15 / 4, 33 / 4]
   \<and> sorted (map loadingProgress (startAssessment_begin in_menu
         # ticking 5 [1 / 2, 1 / 4, 9 / 10] (startAssessment_begin in_menu)))
   \<and> list_all (\<lambda>x. loadingProgress x \<le> 90) (startAssessment_begin in_menu
         # ticking 5 [1 / 2, 1 / 4, 9 / 10] (startAssessment_begin in_menu))"
proof -
  have h: "\<forall>r\<in>set [1 / 2, 1 / 4, 9 / 10 :: real]. 0 \<le> r \<and> r < 1" by simp
  have v: "map loadingProgress (startAssessment_begin in_menu
         # ticking 5 [1 / 2, 1 / 4, 9 / 10] (startAssessment_begin in_menu))
       = [0, 5 / 2, 15 / 4, 33 / 4]"
    by code_simp
  have n: "(0 :: real) \<le> 1 / 2 \<and> (1 / 2 :: real) < 1 \<and> (0 :: real) \<le> 1 / 4 \<and> (1 / 4 :: real) < 1
   \<and> (0 :: real) \<le> 9 / 10 \<and> (9 / 10 :: real) < 1"
    by simp
  show ?thesis
    using n v progress_monotone_capped [OF h, of in_menu] unfolding list_all_iff by blast
qed

lemma finishAssessment_frame:
  "answers (finishAssessment w fa s) = answers s
   \<and> questions (finishAssessment w fa s) = questions s
   \<and> currentQuestionIndex (finishAssessment w fa s) = currentQuestionIndex s
   \<and> state (finishAssessment w fa s) \<noteq> ASSESSMENT
   \<and> (state (finishAssessment w fa s) = ANALYZING \<or> state (finishAssessment w fa s) = ERROR)
   \<and> (timeout (finishAssessment w fa s) = timeout s \<and> state (finishAssessment w fa s) = ERROR
      \<or> timeout (finishAssessment w fa s) = Some RESULT \<and> state (finishAssessment w fa s) = ANALYZING)"
proof (cases "analyzePersonality w fa (username s)")
  case (Inl err)
  then obtain p where "finishAssessment w fa s =
           s\<lparr>state := ERROR, loadingProgress := p,
             errorMsg := ''ANALYSIS FAILED: '' @ message_or err ''DATA CORRUPTED''\<rparr>"
    using finishAssessment_rejected by blast
  then show ?thesis by simp
next
  case (Inr result)
  show ?thesis by (simp add: finishAssessment_resolved [OF Inr])
qed

lemma startAssessment_inv:
  assumes "timeout s = None"
  shows "machine_inv (startAssessment w count s)"
proof (cases "generateAssessmentQuestions w count")
  case (Inl err)
  then obtain p where "startAssessment w count s =
           s\<lparr>state := ERROR, loadingProgress := p,
             errorMsg := ''CONNECTION FAILED: '' @ message_or err ''UNKNOWN ERROR''\<rparr>"
    using startAssessment_rejected by blast
  then show ?thesis using assms by (simp add: machine_inv_def)
next
  case (Inr q)
  show ?thesis by (simp add: startAssessment_resolved [OF Inr] machine_inv_def session_inv_def)
qed

lemma handleAnswer_effect:
  assumes "handleAnswer w now option s = Inr s'"
  shows "\<exists>a. answers s' = answers s @ [a] \<and> a_selectedOption a = option
           \<and> questions s' = questions s
           \<and> 0 \<le> currentQuestionIndex s
           \<and> currentQuestionIndex s < int (length (questions s))
           \<and> (if currentQuestionIndex s < int (length (questions s)) - 1
               then s' = s\<lparr>answers := answers s @ [a],
                            currentQuestionIndex := currentQuestionIndex s + 1\<rparr>
               else s' = finishAssessment w (answers s @ [a]) (s\<lparr>answers := answers s @ [a]\<rparr>))"
  using assms
  by (auto simp: handleAnswer_def currentQ_def Let_def finishAssessment_frame
           split: option.splits if_splits)

lemma handleAnswer_inv:
  assumes "handleAnswer w now option s = Inr s'" and "machine_inv s" and "state s = ASSESSMENT"
  shows "machine_inv s'"
proof -
  obtain a where a: "answers s' = answers s @ [a]"
      and q: "questions s' = questions s"
      and r: "if currentQuestionIndex s < int (length (questions s)) - 1
               then s' = s\<lparr>answers := answers s @ [a],
                            currentQuestionIndex := currentQuestionIndex s + 1\<rparr>
               else s' = finishAssessment w (answers s @ [a]) (s\<lparr>answers := answers s @ [a]\<rparr>)"
    using handleAnswer_effect [OF assms(1)] by blast
  have t: "timeout s = None" using assms(2,3) by (auto simp: machine_inv_def)
  have i: "session_inv s" using assms(2,3) by (simp add: machine_inv_def)
  show ?thesis
  proof (cases "currentQuestionIndex s < int (length (questions s)) - 1")
    case True
    then have "s' = s\<lparr>answers := answers s @ [a],
                        currentQuestionIndex := currentQuestionIndex s + 1\<rparr>"
      using r by simp
    then show ?thesis using True t i by (simp add: machine_inv_def session_inv_def)
  next
    case False
    then have e: "s' = finishAssessment w (answers s @ [a]) (s\<lparr>answers := answers s @ [a]\<rparr>)"
      using r by simp
    show ?thesis
      using finishAssessment_frame [of w "answers s @ [a]" "s\<lparr>answers := answers s @ [a]\<rparr>"] t
      unfolding e machine_inv_def by auto
  qed
qed

lemma handle_inv:
  assumes "machine_inv s"
  shows "machine_inv (handle now e s)"
proof (cases e)
  case TimerFires
  then show ?thesis using assms
    by (auto simp: machine_inv_def session_inv_def split: option.splits)
next
  case (Input v w)
  then show ?thesis using assms by (auto simp: machine_inv_def session_inv_def onChange_def)
next
  case Submit
  then show ?thesis using assms by (auto simp: machine_inv_def session_inv_def handleLogin_def)
next
  case (Select c w)
  show ?thesis
  proof (cases "state s = MENU")
    case True
    then have "timeout s = None" using assms by (auto simp: machine_inv_def)
    then show ?thesis using True Select by (simp add: startAssessment_inv)
  next
    case False
    then show ?thesis using assms Select by simp
  qed
next
  case (Click i w)
  show ?thesis
  proof (cases "handle now (Click i w) s = s")
    case True
    then show ?thesis using assms Click by simp
  next
    case False
    then have "\<exists>opt s'. state s = ASSESSMENT \<and> handleAnswer w now opt s = Inr s'
                 \<and> handle now (Click i w) s = s'"
      by (auto simp: answerButton_def split: if_splits option.splits sum.splits)
    then obtain opt s' where "state s = ASSESSMENT"
        and "handleAnswer w now opt s = Inr s'" and "handle now (Click i w) s = s'"
      by blast
    then show ?thesis using handleAnswer_inv assms Click by simp
  qed
next
  case Reboot
  then show ?thesis using assms by (auto simp: machine_inv_def rebootSystem_def)
next
  case Close
  then show ?thesis using assms by (auto simp: machine_inv_def closeDossier_def)
qed

lemma resetTimer_inv: "machine_inv s' \<Longrightarrow> machine_inv (resetTimer now s s')"
  by (auto simp: resetTimer_def machine_inv_def session_inv_def)

lemma step_inv: "machine_inv s \<Longrightarrow> machine_inv (step s ne)"
  by (simp add: step_def resetTimer_inv handle_inv)

lemma run_inv: "machine_inv s \<Longrightarrow> machine_inv (run s evs)"
  unfolding run_def by (induction evs arbitrary: s) (simp_all add: step_inv)

lemma mount_inv: "machine_inv (mount stored d)"
  by (simp add: mount_def machine_inv_def Let_def)

text \<open>
  C8. In every state that the component reaches in which the assessment shows, the index
  is between 0 and the number of questions and equals the number of answers. A resolved
  generation sets the index to 0 and empties the answers; an answer appends exactly one
  answer, and advances the index by 1, staying in the state, when more questions remain.
\<close>

theorem assessment_invariant:
  "(state (run (mount stored d) evs) = ASSESSMENT \<longrightarrow>
      0 \<le> currentQuestionIndex (run (mount stored d) evs)
      \<and> currentQuestionIndex (run (mount stored d) evs)
          \<le> int (length (questions (run (mount stored d) evs)))
      \<and> int (length (answers (run (mount stored d) evs)))
          = currentQuestionIndex (run (mount stored d) evs))
   \<and> (generateAssessmentQuestions w count = Inr q \<longrightarrow>
        currentQuestionIndex (startAssessment w count s) = 0
        \<and> answers (startAssessment w count s) = []
        \<and> questions (startAssessment w count s) = q)
   \<and> (handleAnswer w now option s = Inr s' \<longrightarrow>
        length (answers s') = length (answers s) + 1
        \<and> butlast (answers s') = answers s
        \<and> (currentQuestionIndex s < int (length (questions s)) - 1 \<longrightarrow>
             currentQuestionIndex s' = currentQuestionIndex s + 1 \<and> state s' = state s))"
proof (intro conjI impI)
  assume "state (run (mount stored d) evs) = ASSESSMENT"
  then have "session_inv (run (mount stored d) evs)"
    using run_inv [OF mount_inv, of stored d evs] by (simp add: machine_inv_def)
  then show "0 \<le> currentQuestionIndex (run (mount stored d) evs)"
    and "currentQuestionIndex (run (mount stored d) evs)
          \<le> int (length (questions (run (mount stored d) evs)))"
    and "int (length (answers (run (mount stored d) evs)))
          = currentQuestionIndex (run (mount stored d) evs)"
    by (simp_all add: session_inv_def)
next
  assume g: "generateAssessmentQuestions w count = Inr q"
  show "currentQuestionIndex (startAssessment w count s) = 0"
    and "answers (startAssessment w count s) = []"
    and "questions (startAssessment w count s) = q"
    by (simp_all add: startAssessment_resolved [OF g])
next
  assume h: "handleAnswer w now option s = Inr s'"
  then obtain a where a: "answers s' = answers s @ [a]"
      and r: "if currentQuestionIndex s < int (length (questions s)) - 1
               then s' = s\<lparr>answers := answers s @ [a],
                            currentQuestionIndex := currentQuestionIndex s + 1\<rparr>
               else s' = finishAssessment w (answers s @ [a]) (s\<lparr>answers := answers s @ [a]\<rparr>)"
    using handleAnswer_effect by blast
  show "length (answers s') = length (answers s) + 1" by (simp add: a)
  show "butlast (answers s') = answers s" by (simp add: a)
  assume "currentQuestionIndex s < int (length (questions s)) - 1"
  then have "s' = s\<lparr>answers := answers s @ [a],
                      currentQuestionIndex := currentQuestionIndex s + 1\<rparr>"
    using r by simp
  then show "currentQuestionIndex s' = currentQuestionIndex s + 1" and "state s' = state s"
    by simp_all
qed

theorem assessment_invariant_witness:
  "state (run (mount None ''2024-05-01'')
           [(3500, TimerFires), (4000, Input (js ''abc'') online), (5000, Submit),
            (6000, Select SHORT online), (7000, TimerFires), (8000, Click 0 online)]) = ASSESSMENT
   \<and> currentQuestionIndex (run (mount None ''2024-05-01'')
           [(3500, TimerFires), (4000, Input (js ''abc'') online), (5000, Submit),
            (6000, Select SHORT online), (7000, TimerFires), (8000, Click 0 online)]) = 1
   \<and> length (questions (run (mount None ''2024-05-01'')
           [(3500, TimerFires), (4000, Input (js ''abc'') online), (5000, Submit),
            (6000, Select SHORT online), (7000, TimerFires), (8000, Click 0 online)])) = 2
   \<and> int (length (answers (run (mount None ''2024-05-01'')
           [(3500, TimerFires), (4000, Input (js ''abc'') online), (5000, Submit),
            (6000, Select SHORT online), (7000, TimerFires), (8000, Click 0 online)])))
       = currentQuestionIndex (run (mount None ''2024-05-01'')
           [(3500, TimerFires), (4000, Input (js ''abc'') online), (5000, Submit),
            (6000, Select SHORT online), (7000, TimerFires), (8000, Click 0 online)])"
proof -
  let ?s = "run (mount None ''2024-05-01'')
           [(3500, TimerFires), (4000, Input (js ''abc'') online), (5000, Submit),
            (6000, Select SHORT online), (7000, TimerFires), (8000, Click 0 online)]"
  have h: "state ?s = ASSESSMENT" by code_simp
  have i: "currentQuestionIndex ?s = 1" by code_simp
  have l: "length (questions ?s) = 2" by code_simp
  show ?thesis
    using h i l assessment_invariant [of None "''2024-05-01''"
           "[(3500, TimerFires), (4000, Input (js ''abc'') online), (5000, Submit),
            (6000, Select SHORT online), (7000, TimerFires), (8000, Click 0 online)]"]
    by blast
qed













end
